theory Spec2Isabelle
  imports Main
begin

section \<open>JavaScript values used by the page component\<close>

text \<open>
  The component exists in two variants: \<^verbatim>\<open>src/app/page.tsx\<close> (suffix \<open>_page\<close> below) and
  \<^verbatim>\<open>src/unnamed/part_000\<close> (suffix \<open>_part\<close>). Definitions without a suffix embed code
  that is the same in both files.

  A value of TypeScript type \<^verbatim>\<open>string | null\<close> or \<^verbatim>\<open>string | undefined\<close> is a
  \<open>string option\<close>. JavaScript tests such a value for truthiness: \<^verbatim>\<open>if (x)\<close> holds when
  \<open>x\<close> is a non-empty string, and \<^verbatim>\<open>!x\<close> holds when \<open>x\<close> is null, undefined or the empty
  string.
\<close>

definition truthy :: "string option \<Rightarrow> bool" where
  "truthy x = (case x of None \<Rightarrow> False | Some v \<Rightarrow> v \<noteq> [])"

definition falsy :: "string option \<Rightarrow> bool" where
  "falsy x = (case x of None \<Rightarrow> True | Some v \<Rightarrow> v = [])"

text \<open>\<^verbatim>\<open>x || null\<close> on such a value.\<close>

definition or_null :: "string option \<Rightarrow> string option" where
  "or_null x = (if truthy x then x else None)"

text \<open>Interpolation \<^verbatim>\<open>${x}\<close> of such a value into a template literal.\<close>

definition interpolate :: "string option \<Rightarrow> string" where
  "interpolate x = (case x of None \<Rightarrow> ''undefined'' | Some v \<Rightarrow> v)"

section \<open>Result items and \<^verbatim>\<open>getUrl\<close>\<close>

text \<open>
  \<^verbatim>\<open>interface YouTubeSearchResult { id: { videoId?, channelId?, playlistId?, kind };
  snippet: { title, description, thumbnails: { medium: { url } }, channelTitle } }\<close>
\<close>

record ResultId =
  videoId :: "string option"
  channelId :: "string option"
  playlistId :: "string option"
  kind :: string

record Snippet =
  title :: string
  description :: string
  thumbnails_medium_url :: string
  channelTitle :: string

record YouTubeSearchResult =
  item_id :: ResultId
  snippet :: Snippet

text \<open>
  \<^verbatim>\<open>getUrl\<close> (page.tsx lines 150-156, part_000 lines 132-138): three truthiness tests in
  the order video, playlist, channel, each returning a template string, and \<^verbatim>\<open>"#"\<close> last.
\<close>

definition getUrl :: "YouTubeSearchResult \<Rightarrow> string" where
  "getUrl item =
     (let vid = videoId (item_id item);
          pl = playlistId (item_id item);
          ch = channelId (item_id item)
      in if truthy vid then ''https://www.youtube.com/watch?v='' @ interpolate vid
         else if truthy pl then ''https://www.youtube.com/playlist?list='' @ interpolate pl
         else if truthy ch then ''https://www.youtube.com/channel/'' @ interpolate ch
         else ''#'')"

section \<open>The clock and \<^verbatim>\<open>new Date(v).toISOString()\<close>\<close>

text \<open>
  \<^verbatim>\<open>Date.now()\<close> is an integer number of milliseconds since 1970-01-01T00:00:00Z, here an
  \<open>int\<close>. \<^verbatim>\<open>toISOString\<close> is a built-in of the language, not code of the repository; the
  model follows ECMAScript: the day number is the floor of the time value divided by the
  milliseconds of a day, the calendar date is the proleptic Gregorian one, the format is
  \<^verbatim>\<open>YYYY-MM-DDTHH:mm:ss.sssZ\<close>, with a sign and six digits for a year outside 0..9999, and
  a time value beyond 8.64e15 in magnitude is an invalid date, on which \<^verbatim>\<open>toISOString\<close>
  throws a RangeError.
\<close>

datatype js_error = RangeError | RequestFailed string

definition msPerDay :: int where
  "msPerDay = 86400000"

text \<open>Year, month (1..12) and day of month (1..31) of a day number counted from 1970-01-01.\<close>

definition civil_from_days :: "int \<Rightarrow> int \<times> int \<times> int" where
  "civil_from_days n =
     (let z = n + 719468;
          era = z div 146097;
          doe = z mod 146097;
          yoe = (doe - doe div 1460 + doe div 36524 - doe div 146096) div 365;
          doy = doe - (365 * yoe + yoe div 4 - yoe div 100);
          mp = (5 * doy + 2) div 153;
          d = doy - (153 * mp + 2) div 5 + 1;
          m = (if mp < 10 then mp + 3 else mp - 9);
          y = yoe + era * 400 + (if m \<le> 2 then 1 else 0)
      in (y, m, d))"

text \<open>The \<open>k\<close> least significant decimal digits of a non-negative number.\<close>

fun digits :: "nat \<Rightarrow> int \<Rightarrow> string" where
  "digits 0 n = []"
| "digits (Suc k) n = digits k (n div 10) @ [''0123456789'' ! nat (n mod 10)]"

definition year_string :: "int \<Rightarrow> string" where
  "year_string y =
     (if 0 \<le> y \<and> y \<le> 9999 then digits 4 y
      else (if y < 0 then ''-'' else ''+'') @ digits 6 \<bar>y\<bar>)"

definition toISOString :: "int \<Rightarrow> string" where
  "toISOString t =
     (case civil_from_days (t div msPerDay) of
        (y, m, d) \<Rightarrow>
          (let ms = t mod msPerDay
           in year_string y @ ''-'' @ digits 2 m @ ''-'' @ digits 2 d @ ''T'' @
              digits 2 (ms div 3600000) @ '':'' @ digits 2 (ms div 60000 mod 60) @ '':'' @
              digits 2 (ms div 1000 mod 60) @ ''.'' @ digits 3 (ms mod 1000) @ ''Z''))"

definition new_Date_toISOString :: "int \<Rightarrow> js_error + string" where
  "new_Date_toISOString v =
     (if \<bar>v\<bar> \<le> 8640000000000000 then Inr (toISOString v) else Inl RangeError)"

section \<open>Component state\<close>

text \<open>
  \<^verbatim>\<open>interface SearchParams\<close>: part_000 declares the seven fields of \<open>SearchParams\<close>;
  page.tsx declares the same seven and \<^verbatim>\<open>publishedAfter: 'any' | 'week' | 'day'\<close>. The
  string-literal unions are strings, as they are at run time.
\<close>

record SearchParams =
  q :: string
  maxResults :: int
  order :: string
  type :: string
  videoDuration :: string
  videoDefinition :: string
  regionCode :: string

record SearchParams_page = SearchParams +
  publishedAfter :: string

text \<open>
  The \<^verbatim>\<open>useState\<close> cells of \<^verbatim>\<open>YouTubeExplorer\<close>. \<open>'p\<close> is the variant's parameter record.
  \<open>tokenClient\<close> holds whether a token client has been stored.
\<close>

record 'p Explorer =
  tokenClient :: bool
  accessToken :: "string option"
  isGapiReady :: bool
  results :: "YouTubeSearchResult list"
  loading :: bool
  nextPageToken :: "string option"
  prevPageToken :: "string option"
  params :: 'p

definition initial_params :: SearchParams where
  "initial_params =
     \<lparr>q = [], maxResults = 50, order = ''relevance'', type = ''video'',
      videoDuration = ''any'', videoDefinition = ''any'', regionCode = ''US''\<rparr>"

definition initial_params_page :: SearchParams_page where
  "initial_params_page =
     \<lparr>q = [], maxResults = 50, order = ''relevance'', type = ''video'',
      videoDuration = ''any'', videoDefinition = ''any'', regionCode = ''US'',
      publishedAfter = ''any''\<rparr>"

definition initial_state :: "'p \<Rightarrow> 'p Explorer" where
  "initial_state p =
     \<lparr>tokenClient = False, accessToken = None, isGapiReady = False, results = [],
      loading = False, nextPageToken = None, prevPageToken = None, params = p\<rparr>"

section \<open>The search request, its outcome and the effects of \<^verbatim>\<open>handleSearch\<close>\<close>

text \<open>
  The argument of \<^verbatim>\<open>gapi.client.youtube.search.list\<close>: \<^verbatim>\<open>part\<close>, \<^verbatim>\<open>pageToken\<close>, the seven
  fields spread from \<^verbatim>\<open>params\<close>, and \<^verbatim>\<open>publishedAfter\<close>, which is \<open>None\<close> when the key is
  missing or undefined.
\<close>

record SearchRequest =
  part :: "string list"
  pageToken :: "string option"
  spread :: SearchParams
  req_publishedAfter :: "string option"

text \<open>\<^verbatim>\<open>response.result\<close> of a fulfilled call, and the two ways the awaited call ends.\<close>

record SearchListResult =
  items :: "YouTubeSearchResult list"
  result_nextPageToken :: "string option"
  result_prevPageToken :: "string option"

datatype outcome = Fulfilled SearchListResult | Rejected js_error

datatype effect =
    PreventDefault
  | Alert string
  | SearchList SearchRequest
  | ScrollToTop
  | ConsoleError string js_error

text \<open>Where a call of the async function stands when it gives control back.\<close>

datatype progress = Returned | Awaiting SearchRequest

section \<open>\<^verbatim>\<open>handleSearch\<close> of page.tsx\<close>

text \<open>
  Lines 116-128: the value of \<^verbatim>\<open>publishedAfterDate\<close> for a clock reading and a filter
  value. No branch matches a value other than the three, and the variable stays undefined.
\<close>

definition publishedAfterDate :: "int \<Rightarrow> string \<Rightarrow> js_error + string option" where
  "publishedAfterDate now pa =
     (if pa = ''week'' then map_sum id Some (new_Date_toISOString (now - 7 * 24 * 60 * 60 * 1000))
      else if pa = ''day'' then map_sum id Some (new_Date_toISOString (now - 24 * 60 * 60 * 1000))
      else if pa = ''any'' then Inr (Some ''1970-01-01T00:00:00Z'')
      else Inr None)"

text \<open>
  Lines 131-136: \<^verbatim>\<open>{ part: ['snippet'], pageToken, ...params, publishedAfter: publishedAfterDate }\<close>.
  The last key overrides the \<^verbatim>\<open>publishedAfter\<close> that the spread copied.
\<close>

definition request_page :: "string option \<Rightarrow> SearchParams_page \<Rightarrow> string option \<Rightarrow> SearchRequest" where
  "request_page tok p pad =
     \<lparr>part = [''snippet''], pageToken = tok, spread = SearchParams.truncate p,
      req_publishedAfter = pad\<rparr>"

text \<open>
  Lines 109-136, up to the \<^verbatim>\<open>await\<close>: \<open>e\<close> tells whether an event was passed, \<open>tok\<close> is
  the \<^verbatim>\<open>pageToken\<close> argument. An exception of \<^verbatim>\<open>toISOString\<close> is thrown inside the \<^verbatim>\<open>try\<close>: the
  \<^verbatim>\<open>catch\<close> logs it and the \<^verbatim>\<open>finally\<close> clears \<open>loading\<close>.
\<close>

definition handleSearch_begin_page ::
    "int \<Rightarrow> bool \<Rightarrow> string option \<Rightarrow> SearchParams_page Explorer
      \<Rightarrow> SearchParams_page Explorer \<times> effect list \<times> progress" where
  "handleSearch_begin_page now e tok s =
     (let pre = (if e then [PreventDefault] else [])
      in if falsy (accessToken s) then (s, pre @ [Alert ''Please authorize first!''], Returned)
         else
           (let s1 = s\<lparr>loading := True\<rparr>
            in case publishedAfterDate now (publishedAfter (params s)) of
                 Inl err \<Rightarrow>
                   (s1\<lparr>loading := False\<rparr>, pre @ [ConsoleError ''Search failed:'' err], Returned)
               | Inr pad \<Rightarrow>
                   (let rq = request_page tok (params s) pad
                    in (s1, pre @ [SearchList rq], Awaiting rq))))"

text \<open>Lines 138-147, after the \<^verbatim>\<open>await\<close>: the continuation on the state of that moment.\<close>

definition handleSearch_settle_page ::
    "outcome \<Rightarrow> 'p Explorer \<Rightarrow> 'p Explorer \<times> effect list" where
  "handleSearch_settle_page oc s =
     (case oc of
        Fulfilled r \<Rightarrow>
          (s\<lparr>results := items r,
             nextPageToken := or_null (result_nextPageToken r),
             prevPageToken := or_null (result_prevPageToken r),
             loading := False\<rparr>, [ScrollToTop])
      | Rejected err \<Rightarrow> (s\<lparr>loading := False\<rparr>, [ConsoleError ''Search failed:'' err]))"

text \<open>One call from start to end, the awaited call ending with \<open>oc\<close>.\<close>

definition handleSearch_page ::
    "int \<Rightarrow> outcome \<Rightarrow> bool \<Rightarrow> string option \<Rightarrow> SearchParams_page Explorer
      \<Rightarrow> SearchParams_page Explorer \<times> effect list" where
  "handleSearch_page now oc e tok s =
     (case handleSearch_begin_page now e tok s of
        (s1, fx, Returned) \<Rightarrow> (s1, fx)
      | (s1, fx, Awaiting rq) \<Rightarrow>
          (case handleSearch_settle_page oc s1 of (s2, fx2) \<Rightarrow> (s2, fx @ fx2)))"

section \<open>\<^verbatim>\<open>handleSearch\<close> of part_000\<close>

text \<open>Lines 111-115: \<^verbatim>\<open>{ part: ['snippet'], pageToken: pageToken, ...params }\<close>.\<close>

definition request_part :: "string option \<Rightarrow> SearchParams \<Rightarrow> SearchRequest" where
  "request_part tok p =
     \<lparr>part = [''snippet''], pageToken = tok, spread = p, req_publishedAfter = None\<rparr>"

definition handleSearch_begin_part ::
    "bool \<Rightarrow> string option \<Rightarrow> SearchParams Explorer
      \<Rightarrow> SearchParams Explorer \<times> effect list \<times> progress" where
  "handleSearch_begin_part e tok s =
     (let pre = (if e then [PreventDefault] else [])
      in if falsy (accessToken s) then (s, pre @ [Alert ''Please authorize first!''], Returned)
         else
           (let s1 = s\<lparr>loading := True\<rparr>;
                rq = request_part tok (params s)
            in (s1, pre @ [SearchList rq], Awaiting rq)))"

text \<open>Lines 117-129: the list is stored reversed (\<^verbatim>\<open>response.result.items.reverse()\<close>).\<close>

definition handleSearch_settle_part ::
    "outcome \<Rightarrow> 'p Explorer \<Rightarrow> 'p Explorer \<times> effect list" where
  "handleSearch_settle_part oc s =
     (case oc of
        Fulfilled r \<Rightarrow>
          (s\<lparr>results := rev (items r),
             nextPageToken := or_null (result_nextPageToken r),
             prevPageToken := or_null (result_prevPageToken r),
             loading := False\<rparr>, [ScrollToTop])
      | Rejected err \<Rightarrow> (s\<lparr>loading := False\<rparr>, [ConsoleError ''Search failed:'' err]))"

definition handleSearch_part ::
    "outcome \<Rightarrow> bool \<Rightarrow> string option \<Rightarrow> SearchParams Explorer
      \<Rightarrow> SearchParams Explorer \<times> effect list" where
  "handleSearch_part oc e tok s =
     (case handleSearch_begin_part e tok s of
        (s1, fx, Returned) \<Rightarrow> (s1, fx)
      | (s1, fx, Awaiting rq) \<Rightarrow>
          (case handleSearch_settle_part oc s1 of (s2, fx2) \<Rightarrow> (s2, fx @ fx2)))"

section \<open>The rendered controls\<close>

text \<open>
  The submit button of both files: \<^verbatim>\<open>disabled={loading || !accessToken}\<close> (page.tsx line
  242, part_000 line 195).
\<close>

definition submit_disabled :: "'p Explorer \<Rightarrow> bool" where
  "submit_disabled s = (loading s \<or> falsy (accessToken s))"

text \<open>
  part_000 lines 220-237: the two page buttons are rendered when \<^verbatim>\<open>results.length > 0\<close>, with
  \<^verbatim>\<open>disabled={loading || !prevPageToken}\<close> and \<^verbatim>\<open>disabled={loading || !nextPageToken}\<close>.
  page.tsx renders no page buttons.
\<close>

definition pagination_rendered :: "'p Explorer \<Rightarrow> bool" where
  "pagination_rendered s = (0 < length (results s))"

definition prev_disabled :: "'p Explorer \<Rightarrow> bool" where
  "prev_disabled s = (loading s \<or> falsy (prevPageToken s))"

definition next_disabled :: "'p Explorer \<Rightarrow> bool" where
  "next_disabled s = (loading s \<or> falsy (nextPageToken s))"

section \<open>The page as a transition system\<close>

text \<open>
  The component state, the calls of \<^verbatim>\<open>search.list\<close> that have been issued and have not
  settled yet, and the effects so far. An event is handled on the state of the last render.
  \<^verbatim>\<open>handleSearch\<close> has three callers: the form's \<^verbatim>\<open>onSubmit\<close> and, in part_000, the
  \<^verbatim>\<open>onClick\<close> of the two page buttons. A disabled button receives no click, and a form
  whose submit button is disabled is not submitted. The \<^verbatim>\<open>required\<close> attribute of the text
  input, which keeps an empty query from being submitted, is left out: the system below
  allows every submission the browser allows, and more.
\<close>

record 'p App =
  view :: "'p Explorer"
  pending :: "SearchRequest list"
  effects :: "effect list"

datatype 'p ui_event =
    Submit int
  | PreviousPage
  | NextPage
  | Settle outcome
  | TokenResponse "string option"
  | SetParams 'p

definition initial_app :: "'p \<Rightarrow> 'p App" where
  "initial_app p = \<lparr>view = initial_state p, pending = [], effects = []\<rparr>"

text \<open>What a call of \<^verbatim>\<open>handleSearch\<close> that has run up to its return or its \<^verbatim>\<open>await\<close> leaves.\<close>

definition started :: "'p App \<Rightarrow> 'p Explorer \<times> effect list \<times> progress \<Rightarrow> 'p App" where
  "started a r =
     (case r of
        (s, fx, pr) \<Rightarrow>
          a\<lparr>view := s, effects := effects a @ fx,
            pending := pending a @ (case pr of Returned \<Rightarrow> [] | Awaiting rq \<Rightarrow> [rq])\<rparr>)"

definition settled :: "'p App \<Rightarrow> 'p Explorer \<times> effect list \<Rightarrow> 'p App" where
  "settled a r =
     (case r of (s, fx) \<Rightarrow> a\<lparr>view := s, effects := effects a @ fx, pending := tl (pending a)\<rparr>)"

text \<open>
  The token callback of the init effect: \<^verbatim>\<open>if (tokenResponse.access_token)
  setAccessToken(tokenResponse.access_token)\<close>.
\<close>

definition token_callback :: "string option \<Rightarrow> 'p Explorer \<Rightarrow> 'p Explorer" where
  "token_callback t s = (if truthy t then s\<lparr>accessToken := t\<rparr> else s)"

text \<open>
  One event of page.tsx; \<open>None\<close> when the event cannot happen in the state. \<open>Submit now\<close>
  is a submission of the form at clock reading \<open>now\<close>.
\<close>

fun ui_step_page :: "SearchParams_page ui_event \<Rightarrow> SearchParams_page App
    \<Rightarrow> SearchParams_page App option" where
  "ui_step_page (Submit now) a =
     (if submit_disabled (view a) then None
      else Some (started a (handleSearch_begin_page now True None (view a))))"
| "ui_step_page PreviousPage a = None"
| "ui_step_page NextPage a = None"
| "ui_step_page (Settle oc) a =
     (if pending a = [] then None
      else Some (settled a (handleSearch_settle_page oc (view a))))"
| "ui_step_page (TokenResponse t) a = Some (a\<lparr>view := token_callback t (view a)\<rparr>)"
| "ui_step_page (SetParams p) a = Some (a\<lparr>view := (view a)\<lparr>params := p\<rparr>\<rparr>)"

text \<open>One event of part_000, whose \<^verbatim>\<open>handleSearch\<close> reads no clock.\<close>

fun ui_step_part :: "SearchParams ui_event \<Rightarrow> SearchParams App \<Rightarrow> SearchParams App option" where
  "ui_step_part (Submit now) a =
     (if submit_disabled (view a) then None
      else Some (started a (handleSearch_begin_part True None (view a))))"
| "ui_step_part PreviousPage a =
     (if pagination_rendered (view a) \<and> \<not> prev_disabled (view a)
      then Some (started a (handleSearch_begin_part False (prevPageToken (view a)) (view a)))
      else None)"
| "ui_step_part NextPage a =
     (if pagination_rendered (view a) \<and> \<not> next_disabled (view a)
      then Some (started a (handleSearch_begin_part False (nextPageToken (view a)) (view a)))
      else None)"
| "ui_step_part (Settle oc) a =
     (if pending a = [] then None
      else Some (settled a (handleSearch_settle_part oc (view a))))"
| "ui_step_part (TokenResponse t) a = Some (a\<lparr>view := token_callback t (view a)\<rparr>)"
| "ui_step_part (SetParams p) a = Some (a\<lparr>view := (view a)\<lparr>params := p\<rparr>\<rparr>)"

text \<open>A sequence of events from a state; \<open>None\<close> when one of them cannot happen.\<close>

fun run_page :: "SearchParams_page ui_event list \<Rightarrow> SearchParams_page App
    \<Rightarrow> SearchParams_page App option" where
  "run_page [] a = Some a"
| "run_page (ev # evs) a =
     (case ui_step_page ev a of None \<Rightarrow> None | Some a' \<Rightarrow> run_page evs a')"

fun run_part :: "SearchParams ui_event list \<Rightarrow> SearchParams App \<Rightarrow> SearchParams App option" where
  "run_part [] a = Some a"
| "run_part (ev # evs) a =
     (case ui_step_part ev a of None \<Rightarrow> None | Some a' \<Rightarrow> run_part evs a')"

section \<open>The readiness poll\<close>

text \<open>
  The init effect (page.tsx lines 59-97, part_000 lines 59-95). What the callback reads of
  the globals: \<^verbatim>\<open>typeof gapi !== 'undefined'\<close>, \<^verbatim>\<open>typeof google !== 'undefined'\<close> and
  the truthiness of \<^verbatim>\<open>google.accounts\<close>.
\<close>

record Globals =
  gapi_defined :: bool
  google_defined :: bool
  google_accounts :: bool

datatype poll_effect = CallbackRun | GapiLoad | InitTokenClient | SetTokenClient | ClearInterval

text \<open>
  The two flags of the effect's closure, whether the interval is still set, and the
  effects so far.
\<close>

record Poll =
  gapiInitStarted :: bool
  gisInitStarted :: bool
  interval_set :: bool
  trace :: "poll_effect list"

text \<open>The effect body: both flags false, the interval set.\<close>

definition mounted :: Poll where
  "mounted = \<lparr>gapiInitStarted = False, gisInitStarted = False, interval_set = True, trace = []\<rparr>"

text \<open>
  The callback given to \<^verbatim>\<open>setInterval\<close>: its three \<^verbatim>\<open>if\<close> statements in order.
  \<open>GapiLoad\<close> is the call \<^verbatim>\<open>gapi.load('client', ...)\<close>, whose own callback (the client's
  \<^verbatim>\<open>init\<close>, then \<^verbatim>\<open>setIsGapiReady(true)\<close>) runs later, outside the poll; \<open>InitTokenClient\<close>
  and \<open>SetTokenClient\<close> are \<^verbatim>\<open>google.accounts.oauth2.initTokenClient(...)\<close> and
  \<^verbatim>\<open>setTokenClient(client)\<close>.
\<close>

definition interval_callback :: "Globals \<Rightarrow> Poll \<Rightarrow> Poll" where
  "interval_callback g p0 =
     (let p1 = p0\<lparr>trace := trace p0 @ [CallbackRun]\<rparr>;
          p2 = (if gapi_defined g \<and> \<not> gapiInitStarted p1
                then p1\<lparr>gapiInitStarted := True, trace := trace p1 @ [GapiLoad]\<rparr>
                else p1);
          p3 = (if google_defined g \<and> google_accounts g \<and> \<not> gisInitStarted p2
                then p2\<lparr>gisInitStarted := True,
                       trace := trace p2 @ [InitTokenClient, SetTokenClient]\<rparr>
                else p2)
      in if gapiInitStarted p3 \<and> gisInitStarted p3
         then p3\<lparr>interval_set := False, trace := trace p3 @ [ClearInterval]\<rparr>
         else p3)"

text \<open>
  A period of the timer elapses, or the view is torn down and the cleanup
  \<^verbatim>\<open>() => clearInterval(interval)\<close> runs. A cleared interval calls nothing.
\<close>

datatype poll_event = Elapse Globals | Teardown

fun poll_step :: "poll_event \<Rightarrow> Poll \<Rightarrow> Poll" where
  "poll_step (Elapse g) p = (if interval_set p then interval_callback g p else p)"
| "poll_step Teardown p = p\<lparr>interval_set := False, trace := trace p @ [ClearInterval]\<rparr>"

fun poll_run :: "poll_event list \<Rightarrow> Poll \<Rightarrow> Poll" where
  "poll_run [] p = p"
| "poll_run (ev # evs) p = poll_run evs (poll_step ev p)"

section \<open>Invariants\<close>

text \<open>
  Of the page: \<open>loading\<close> is set exactly while a call is pending, at most one call is
  pending, and a stored cursor is never the empty string.
\<close>

definition app_inv :: "'p App \<Rightarrow> bool" where
  "app_inv a =
     (loading (view a) = (pending a \<noteq> []) \<and> length (pending a) \<le> 1 \<and>
      nextPageToken (view a) \<noteq> Some [] \<and> prevPageToken (view a) \<noteq> Some [])"

text \<open>
  Of the poll: each initialisation has happened once if its flag is set and never
  otherwise, and the interval is cleared once both flags are set.
\<close>

definition poll_inv :: "Poll \<Rightarrow> bool" where
  "poll_inv p =
     (count_list (trace p) GapiLoad = (if gapiInitStarted p then 1 else 0) \<and>
      count_list (trace p) InitTokenClient = (if gisInitStarted p then 1 else 0) \<and>
      (if gapiInitStarted p \<and> gisInitStarted p then interval_set p = False else True))"

section \<open>Sample values\<close>

text \<open>A video item with a given identifier, and a state in which a token has been granted.\<close>

definition sample_item :: "string \<Rightarrow> YouTubeSearchResult" where
  "sample_item v =
     \<lparr>item_id = \<lparr>videoId = Some v, channelId = None, playlistId = None,
        kind = ''youtube#video''\<rparr>,
      snippet = \<lparr>title = ''title of '' @ v, description = [],
        thumbnails_medium_url = ''https://i.ytimg.com/vi/'' @ v @ ''/mqdefault.jpg'',
        channelTitle = ''channel''\<rparr>\<rparr>"

definition authorized :: "'p \<Rightarrow> 'p Explorer" where
  "authorized p = (initial_state p)\<lparr>accessToken := Some ''ya29.token''\<rparr>"

section \<open>Basic facts about the values\<close>

lemma truthy_Some [simp]: "truthy (Some v) = (v \<noteq> [])"
  by (simp add: truthy_def)

lemma truthy_None [simp]: "truthy None = False"
  by (simp add: truthy_def)

lemma falsy_not_truthy: "falsy x = (\<not> truthy x)"
  by (cases x) (simp_all add: falsy_def)

lemma falsy_None [simp]: "falsy None = True"
  by (simp add: falsy_def)

lemma falsy_Some [simp]: "falsy (Some v) = (v = [])"
  by (simp add: falsy_def)

lemma interpolate_Some [simp]: "interpolate (Some v) = v"
  by (simp add: interpolate_def)

lemma or_null_None [simp]: "or_null None = None"
  by (simp add: or_null_def)

lemma or_null_Some [simp]: "or_null (Some c) = (if c = [] then None else Some c)"
  by (simp add: or_null_def)

lemma or_null_never_empty: "or_null x \<noteq> Some []"
  by (cases x) simp_all

lemma falsy_or_null: "falsy (or_null x) = (or_null x = None)"
  by (cases x) simp_all

section \<open>Properties of \<^verbatim>\<open>getUrl\<close>\<close>

text \<open>
  An empty string in an identifier field counts as no identifier: the tests are
  truthiness tests.
\<close>

lemma getUrl_empty_identifiers:
  "getUrl \<lparr>item_id = \<lparr>videoId = Some [], channelId = Some [], playlistId = Some [], kind = k\<rparr>,
      snippet = sn\<rparr> = ''#''"
  by (simp add: getUrl_def)

text \<open>
  C5. For a result item that carries an identifier of one kind, \<^verbatim>\<open>getUrl\<close> returns the
  watch URL for a video identifier, the playlist URL for a playlist identifier and the
  channel URL for a channel identifier, each followed by the identifier; for an item that
  carries none of the three it returns \<^verbatim>\<open>"#"\<close>. An identifier is a non-empty string; a
  field that is missing or empty carries none.
\<close>

theorem getUrl_by_kind:
  "(v \<noteq> [] \<and> falsy pl \<and> falsy ch \<longrightarrow>
      getUrl \<lparr>item_id = \<lparr>videoId = Some v, channelId = ch, playlistId = pl, kind = k\<rparr>,
        snippet = sn\<rparr> = ''https://www.youtube.com/watch?v='' @ v) \<and>
   (p \<noteq> [] \<and> falsy vid \<and> falsy ch \<longrightarrow>
      getUrl \<lparr>item_id = \<lparr>videoId = vid, channelId = ch, playlistId = Some p, kind = k\<rparr>,
        snippet = sn\<rparr> = ''https://www.youtube.com/playlist?list='' @ p) \<and>
   (c \<noteq> [] \<and> falsy vid \<and> falsy pl \<longrightarrow>
      getUrl \<lparr>item_id = \<lparr>videoId = vid, channelId = Some c, playlistId = pl, kind = k\<rparr>,
        snippet = sn\<rparr> = ''https://www.youtube.com/channel/'' @ c) \<and>
   (falsy vid \<and> falsy pl \<and> falsy ch \<longrightarrow>
      getUrl \<lparr>item_id = \<lparr>videoId = vid, channelId = ch, playlistId = pl, kind = k\<rparr>,
        snippet = sn\<rparr> = ''#'')"
  by (simp add: getUrl_def falsy_not_truthy)

theorem getUrl_by_kind_witness:
  "getUrl \<lparr>item_id = \<lparr>videoId = Some ''dQw4w9WgXcQ'', channelId = None, playlistId = None,
      kind = ''youtube#video''\<rparr>, snippet = \<lparr>title = ''t'', description = ''d'',
      thumbnails_medium_url = ''u'', channelTitle = ''c''\<rparr>\<rparr>
     = ''https://www.youtube.com/watch?v=dQw4w9WgXcQ'' \<and>
   getUrl \<lparr>item_id = \<lparr>videoId = None, channelId = None, playlistId = Some ''PL123'',
      kind = ''youtube#video''\<rparr>, snippet = \<lparr>title = ''t'', description = ''d'',
      thumbnails_medium_url = ''u'', channelTitle = ''c''\<rparr>\<rparr>
     = ''https://www.youtube.com/playlist?list=PL123'' \<and>
   getUrl \<lparr>item_id = \<lparr>videoId = None, channelId = Some ''UC42'', playlistId = None,
      kind = ''youtube#video''\<rparr>, snippet = \<lparr>title = ''t'', description = ''d'',
      thumbnails_medium_url = ''u'', channelTitle = ''c''\<rparr>\<rparr>
     = ''https://www.youtube.com/channel/UC42'' \<and>
   getUrl \<lparr>item_id = \<lparr>videoId = None, channelId = None, playlistId = None,
      kind = ''youtube#video''\<rparr>, snippet = \<lparr>title = ''t'', description = ''d'',
      thumbnails_medium_url = ''u'', channelTitle = ''c''\<rparr>\<rparr> = ''#''"
  using getUrl_by_kind [where v = "''dQw4w9WgXcQ''" and p = "''PL123''" and c = "''UC42''"
      and vid = None and pl = None and ch = None and k = "''youtube#video''"
      and sn = "\<lparr>title = ''t'', description = ''d'', thumbnails_medium_url = ''u'',
        channelTitle = ''c''\<rparr>"]
  by simp

text \<open>
  C10. When an item carries identifiers of several kinds, the video identifier wins over
  the playlist identifier and the playlist identifier wins over the channel identifier:
  with a video identifier the watch URL is returned whatever the other two fields hold,
  and without a video identifier but with a playlist identifier the playlist URL is
  returned whatever the channel field holds. An identifier is a non-empty string.
\<close>

theorem getUrl_precedence:
  "(v \<noteq> [] \<longrightarrow>
      getUrl \<lparr>item_id = \<lparr>videoId = Some v, channelId = ch, playlistId = pl, kind = k\<rparr>,
        snippet = sn\<rparr> = ''https://www.youtube.com/watch?v='' @ v) \<and>
   (p \<noteq> [] \<and> falsy vid \<longrightarrow>
      getUrl \<lparr>item_id = \<lparr>videoId = vid, channelId = ch, playlistId = Some p, kind = k\<rparr>,
        snippet = sn\<rparr> = ''https://www.youtube.com/playlist?list='' @ p)"
  by (simp add: getUrl_def falsy_not_truthy)

theorem getUrl_precedence_witness:
  "getUrl \<lparr>item_id = \<lparr>videoId = Some ''dQw4w9WgXcQ'', channelId = Some ''UC42'',
      playlistId = Some ''PL123'', kind = ''youtube#video''\<rparr>, snippet = \<lparr>title = ''t'',
      description = ''d'', thumbnails_medium_url = ''u'', channelTitle = ''c''\<rparr>\<rparr>
     = ''https://www.youtube.com/watch?v=dQw4w9WgXcQ'' \<and>
   getUrl \<lparr>item_id = \<lparr>videoId = None, channelId = Some ''UC42'',
      playlistId = Some ''PL123'', kind = ''youtube#playlist''\<rparr>, snippet = \<lparr>title = ''t'',
      description = ''d'', thumbnails_medium_url = ''u'', channelTitle = ''c''\<rparr>\<rparr>
     = ''https://www.youtube.com/playlist?list=PL123''"
  using getUrl_precedence [of "''dQw4w9WgXcQ''" "Some ''UC42''" "Some ''PL123''" "''youtube#video''"
      "\<lparr>title = ''t'', description = ''d'', thumbnails_medium_url = ''u'', channelTitle = ''c''\<rparr>"
      "''PL123''" None]
    getUrl_precedence [of "''dQw4w9WgXcQ''" "Some ''UC42''" "Some ''PL123''" "''youtube#playlist''"
      "\<lparr>title = ''t'', description = ''d'', thumbnails_medium_url = ''u'', channelTitle = ''c''\<rparr>"
      "''PL123''" None]
  by simp

section \<open>\<^verbatim>\<open>handleSearch\<close>: one call from start to end\<close>

lemma authorized_fields [simp]:
  "accessToken (authorized p) = Some ''ya29.token''"
  "params (authorized p) = p"
  "results (authorized p) = []"
  "loading (authorized p) = False"
  "nextPageToken (authorized p) = None"
  "prevPageToken (authorized p) = None"
  by (simp_all add: authorized_def initial_state_def)

lemma sample_item_inject [simp]: "(sample_item v = sample_item w) = (v = w)"
  by (auto simp add: sample_item_def)

text \<open>With a token and a computed timestamp the call is issued and then settles.\<close>

lemma handleSearch_page_called:
  "truthy (accessToken s) \<Longrightarrow> publishedAfterDate now (publishedAfter (params s)) = Inr pad \<Longrightarrow>
   handleSearch_page now oc e tok s =
     (case handleSearch_settle_page oc (s\<lparr>loading := True\<rparr>) of
        (s2, fx2) \<Rightarrow> (s2, (if e then [PreventDefault] else []) @
           [SearchList (request_page tok (params s) pad)] @ fx2))"
  by (simp add: handleSearch_page_def handleSearch_begin_page_def falsy_not_truthy Let_def)

lemma handleSearch_part_called:
  "truthy (accessToken s) \<Longrightarrow>
   handleSearch_part oc e tok s =
     (case handleSearch_settle_part oc (s\<lparr>loading := True\<rparr>) of
        (s2, fx2) \<Rightarrow> (s2, (if e then [PreventDefault] else []) @
           [SearchList (request_part tok (params s))] @ fx2))"
  by (simp add: handleSearch_part_def handleSearch_begin_part_def falsy_not_truthy Let_def)

text \<open>
  The continuation after a rejected call, on whatever state the page is in by then: only
  \<open>loading\<close> is written.
\<close>

lemma handleSearch_settle_rejected:
  "handleSearch_settle_page (Rejected err) s =
     (s\<lparr>loading := False\<rparr>, [ConsoleError ''Search failed:'' err])"
  "handleSearch_settle_part (Rejected err) s =
     (s\<lparr>loading := False\<rparr>, [ConsoleError ''Search failed:'' err])"
  by (simp_all add: handleSearch_settle_page_def handleSearch_settle_part_def)

text \<open>The clock reading 1700000000000 is 2023-11-14T22:13:20Z.\<close>

lemma toISOString_week_before: "toISOString 1699395200000 = ''2023-11-07T22:13:20.000Z''"
  by code_simp

lemma toISOString_day_before: "toISOString 1699913600000 = ''2023-11-13T22:13:20.000Z''"
  by code_simp

lemma toISOString_epoch: "toISOString 0 = ''1970-01-01T00:00:00.000Z''"
  by code_simp

lemma toISOString_leap_day: "toISOString 1709251199999 = ''2024-02-29T23:59:59.999Z''"
  by code_simp

lemma toISOString_before_epoch: "toISOString (- 1) = ''1969-12-31T23:59:59.999Z''"
  by code_simp

lemma toISOString_last: "toISOString 8640000000000000 = ''+275760-09-13T00:00:00.000Z''"
  by code_simp

lemma toISOString_first: "toISOString (- 8640000000000000) = ''-271821-04-20T00:00:00.000Z''"
  by code_simp

lemma publishedAfterDate_any [simp]:
  "publishedAfterDate now ''any'' = Inr (Some ''1970-01-01T00:00:00Z'')"
  by (simp add: publishedAfterDate_def)

lemma publishedAfterDate_week_example:
  "publishedAfterDate 1700000000000 ''week'' = Inr (Some ''2023-11-07T22:13:20.000Z'')"
  by (simp add: publishedAfterDate_def new_Date_toISOString_def toISOString_week_before)

text \<open>
  At a clock reading within seven days of the least time value the subtraction leaves the
  range of \<^verbatim>\<open>Date\<close>: \<^verbatim>\<open>toISOString\<close> throws, and the call logs the error without a request.
\<close>

lemma publishedAfterDate_out_of_range:
  "publishedAfterDate (- 8640000000000000) ''week'' = Inl RangeError"
  by (simp add: publishedAfterDate_def new_Date_toISOString_def)

text \<open>
  C7. A call of \<^verbatim>\<open>handleSearch\<close> made while the access token is absent (null, or the empty
  string) does not call the search client, raises the alert "Please authorize first!" and
  leaves every state field as it was.
\<close>

theorem handleSearch_without_token:
  "(falsy (accessToken s) \<longrightarrow>
      handleSearch_page now oc e tok s =
        (s, (if e then [PreventDefault] else []) @ [Alert ''Please authorize first!'']) \<and>
      (\<forall>rq. SearchList rq \<notin> set (snd (handleSearch_page now oc e tok s)))) \<and>
   (falsy (accessToken t) \<longrightarrow>
      handleSearch_part oc e tok t =
        (t, (if e then [PreventDefault] else []) @ [Alert ''Please authorize first!'']) \<and>
      (\<forall>rq. SearchList rq \<notin> set (snd (handleSearch_part oc e tok t))))"
  by (simp add: handleSearch_page_def handleSearch_begin_page_def handleSearch_part_def
      handleSearch_begin_part_def)

theorem handleSearch_without_token_witness:
  "handleSearch_page 1700000000000
      (Fulfilled \<lparr>items = [sample_item ''a''], result_nextPageToken = None,
         result_prevPageToken = None\<rparr>) True None (initial_state initial_params_page) =
     (initial_state initial_params_page, [PreventDefault, Alert ''Please authorize first!'']) \<and>
   handleSearch_part
      (Fulfilled \<lparr>items = [sample_item ''a''], result_nextPageToken = None,
         result_prevPageToken = None\<rparr>) False (Some ''CAUQAA'') (initial_state initial_params) =
     (initial_state initial_params, [Alert ''Please authorize first!''])"
  using handleSearch_without_token [where s = "initial_state initial_params_page"
      and t = "initial_state initial_params" and e = True and tok = None
      and now = 1700000000000
      and oc = "Fulfilled \<lparr>items = [sample_item ''a''], result_nextPageToken = None,
         result_prevPageToken = None\<rparr>"]
    handleSearch_without_token [where s = "initial_state initial_params_page"
      and t = "initial_state initial_params" and e = False and tok = "Some ''CAUQAA''"
      and now = 1700000000000
      and oc = "Fulfilled \<lparr>items = [sample_item ''a''], result_nextPageToken = None,
         result_prevPageToken = None\<rparr>"]
  by (simp add: initial_state_def)

text \<open>
  C6. When the search call fails, \<^verbatim>\<open>handleSearch\<close> catches the error and logs it with
  \<^verbatim>\<open>console.error("Search failed:", err)\<close>; the state it leaves differs from the state
  before the call at most in \<open>loading\<close>, which is false: the result list and both cursors
  are the prior ones, and a state that was not loading is left as it was. The state has no
  field for an error.
\<close>

theorem handleSearch_failure:
  "(truthy (accessToken s) \<and> publishedAfterDate now (publishedAfter (params s)) = Inr pad \<longrightarrow>
      (case handleSearch_page now (Rejected err) e tok s of
         (s', fx) \<Rightarrow>
           fx = (if e then [PreventDefault] else []) @
             [SearchList (request_page tok (params s) pad), ConsoleError ''Search failed:'' err] \<and>
           s' = s\<lparr>loading := False\<rparr> \<and>
           results s' = results s \<and> nextPageToken s' = nextPageToken s \<and>
           prevPageToken s' = prevPageToken s \<and>
           (\<not> loading s \<longrightarrow> s' = s))) \<and>
   (truthy (accessToken t) \<longrightarrow>
      (case handleSearch_part (Rejected err) e tok t of
         (t', fx) \<Rightarrow>
           fx = (if e then [PreventDefault] else []) @
             [SearchList (request_part tok (params t)), ConsoleError ''Search failed:'' err] \<and>
           t' = t\<lparr>loading := False\<rparr> \<and>
           results t' = results t \<and> nextPageToken t' = nextPageToken t \<and>
           prevPageToken t' = prevPageToken t \<and>
           (\<not> loading t \<longrightarrow> t' = t)))"
  by (simp add: handleSearch_page_called handleSearch_part_called handleSearch_settle_page_def
      handleSearch_settle_part_def)

theorem handleSearch_failure_witness:
  "handleSearch_page 1700000000000 (Rejected (RequestFailed ''quotaExceeded'')) True None
      (authorized initial_params_page) =
     (authorized initial_params_page,
      [PreventDefault,
       SearchList (request_page None initial_params_page (Some ''1970-01-01T00:00:00Z'')),
       ConsoleError ''Search failed:'' (RequestFailed ''quotaExceeded'')]) \<and>
   handleSearch_part (Rejected (RequestFailed ''quotaExceeded'')) False (Some ''CAUQAA'')
      (authorized initial_params) =
     (authorized initial_params,
      [SearchList (request_part (Some ''CAUQAA'') initial_params),
       ConsoleError ''Search failed:'' (RequestFailed ''quotaExceeded'')])"
  using handleSearch_failure [where s = "authorized initial_params_page" and now = 1700000000000
      and pad = "Some ''1970-01-01T00:00:00Z''" and err = "RequestFailed ''quotaExceeded''"
      and e = True and tok = None and t = "authorized initial_params"]
    handleSearch_failure [where s = "authorized initial_params_page" and now = 1700000000000
      and pad = "Some ''1970-01-01T00:00:00Z''" and err = "RequestFailed ''quotaExceeded''"
      and e = False and tok = "Some ''CAUQAA''" and t = "authorized initial_params"]
  by (simp add: initial_params_page_def split: prod.splits)

text \<open>
  C1, as the code has it. After a fulfilled search call the stored result list is
  \<^verbatim>\<open>response.result.items\<close> in the same order in page.tsx and in reverse order in
  part_000; in both files \<open>nextPageToken\<close> and \<open>prevPageToken\<close> are the cursors of the
  response, null for a cursor that is absent (or the empty string).
\<close>

theorem handleSearch_success:
  "(truthy (accessToken s) \<and> publishedAfterDate now (publishedAfter (params s)) = Inr pad \<longrightarrow>
      (case handleSearch_page now (Fulfilled r) e tok s of
         (s', fx) \<Rightarrow>
           results s' = items r \<and>
           nextPageToken s' = or_null (result_nextPageToken r) \<and>
           prevPageToken s' = or_null (result_prevPageToken r) \<and>
           \<not> loading s')) \<and>
   (truthy (accessToken t) \<longrightarrow>
      (case handleSearch_part (Fulfilled r) e tok t of
         (t', fx) \<Rightarrow>
           results t' = rev (items r) \<and>
           nextPageToken t' = or_null (result_nextPageToken r) \<and>
           prevPageToken t' = or_null (result_prevPageToken r) \<and>
           \<not> loading t'))"
  by (simp add: handleSearch_page_called handleSearch_part_called handleSearch_settle_page_def
      handleSearch_settle_part_def)

theorem handleSearch_success_witness:
  "results (fst (handleSearch_page 1700000000000
      (Fulfilled \<lparr>items = [sample_item ''a'', sample_item ''b''],
         result_nextPageToken = Some ''CAUQAA'', result_prevPageToken = None\<rparr>)
      True None (authorized initial_params_page))) = [sample_item ''a'', sample_item ''b''] \<and>
   nextPageToken (fst (handleSearch_page 1700000000000
      (Fulfilled \<lparr>items = [sample_item ''a'', sample_item ''b''],
         result_nextPageToken = Some ''CAUQAA'', result_prevPageToken = None\<rparr>)
      True None (authorized initial_params_page))) = Some ''CAUQAA'' \<and>
   prevPageToken (fst (handleSearch_page 1700000000000
      (Fulfilled \<lparr>items = [sample_item ''a'', sample_item ''b''],
         result_nextPageToken = Some ''CAUQAA'', result_prevPageToken = None\<rparr>)
      True None (authorized initial_params_page))) = None \<and>
   results (fst (handleSearch_part
      (Fulfilled \<lparr>items = [sample_item ''a'', sample_item ''b''],
         result_nextPageToken = Some ''CAUQAA'', result_prevPageToken = None\<rparr>)
      True None (authorized initial_params))) = [sample_item ''b'', sample_item ''a''] \<and>
   nextPageToken (fst (handleSearch_part
      (Fulfilled \<lparr>items = [sample_item ''a'', sample_item ''b''],
         result_nextPageToken = Some ''CAUQAA'', result_prevPageToken = None\<rparr>)
      True None (authorized initial_params))) = Some ''CAUQAA''"
  using handleSearch_success [where s = "authorized initial_params_page" and now = 1700000000000
      and pad = "Some ''1970-01-01T00:00:00Z''" and e = True and tok = None
      and t = "authorized initial_params"
      and r = "\<lparr>items = [sample_item ''a'', sample_item ''b''],
         result_nextPageToken = Some ''CAUQAA'', result_prevPageToken = None\<rparr>"]
  by (simp add: initial_params_page_def split: prod.splits)

text \<open>
  In part_000 a response with the items a, b leaves the result list b, a: the list is not
  stored in the order of the response.
\<close>

theorem handleSearch_success_counterexample:
  "results (fst (handleSearch_part
      (Fulfilled \<lparr>items = [sample_item ''a'', sample_item ''b''],
         result_nextPageToken = Some ''CAUQAA'', result_prevPageToken = None\<rparr>)
      True None (authorized initial_params))) = [sample_item ''b'', sample_item ''a''] \<and>
   results (fst (handleSearch_part
      (Fulfilled \<lparr>items = [sample_item ''a'', sample_item ''b''],
         result_nextPageToken = Some ''CAUQAA'', result_prevPageToken = None\<rparr>)
      True None (authorized initial_params))) \<noteq> [sample_item ''a'', sample_item ''b'']"
  by (simp add: handleSearch_part_called handleSearch_settle_part_def)

text \<open>
  C2. The recency filter of page.tsx is translated, at clock reading \<open>now\<close>, to the
  ISO-8601 string of the instant \<open>7 * 24 * 60 * 60 * 1000\<close> milliseconds before \<open>now\<close> for
  \<^verbatim>\<open>"week"\<close>, of the instant \<open>24 * 60 * 60 * 1000\<close> milliseconds before \<open>now\<close> for
  \<^verbatim>\<open>"day"\<close>, and to \<^verbatim>\<open>1970-01-01T00:00:00Z\<close> for \<^verbatim>\<open>"any"\<close>. The instant before \<open>now\<close> is
  taken within the range of \<^verbatim>\<open>Date\<close>, as it is for every reading of a running clock.
\<close>

theorem publishedAfterDate_translation:
  "(\<bar>now - 7 * 24 * 60 * 60 * 1000\<bar> \<le> 8640000000000000 \<longrightarrow>
      publishedAfterDate now ''week'' =
        Inr (Some (toISOString (now - 7 * 24 * 60 * 60 * 1000)))) \<and>
   (\<bar>now - 24 * 60 * 60 * 1000\<bar> \<le> 8640000000000000 \<longrightarrow>
      publishedAfterDate now ''day'' = Inr (Some (toISOString (now - 24 * 60 * 60 * 1000)))) \<and>
   publishedAfterDate now ''any'' = Inr (Some ''1970-01-01T00:00:00Z'')"
  by (simp add: publishedAfterDate_def new_Date_toISOString_def)

theorem publishedAfterDate_translation_witness:
  "publishedAfterDate 1700000000000 ''week'' = Inr (Some ''2023-11-07T22:13:20.000Z'') \<and>
   publishedAfterDate 1700000000000 ''day'' = Inr (Some ''2023-11-13T22:13:20.000Z'') \<and>
   publishedAfterDate 1700000000000 ''any'' = Inr (Some ''1970-01-01T00:00:00Z'')"
  using publishedAfterDate_translation [of 1700000000000]
  by (simp add: toISOString_week_before toISOString_day_before)

text \<open>
  C3, as the code has it. In page.tsx the request carries the translated recency filter
  as \<^verbatim>\<open>publishedAfter\<close>, so that two requests whose translated filters differ are
  different requests. In part_000 the parameters have no recency filter, nothing is
  computed from one, and the request carries no \<^verbatim>\<open>publishedAfter\<close>.
\<close>

theorem recency_filter_in_request:
  "(truthy (accessToken s) \<and> publishedAfterDate now (publishedAfter (params s)) = Inr pad \<longrightarrow>
      handleSearch_begin_page now e tok s =
        (s\<lparr>loading := True\<rparr>,
         (if e then [PreventDefault] else []) @
           [SearchList \<lparr>part = [''snippet''], pageToken = tok,
              spread = SearchParams.truncate (params s), req_publishedAfter = pad\<rparr>],
         Awaiting \<lparr>part = [''snippet''], pageToken = tok,
              spread = SearchParams.truncate (params s), req_publishedAfter = pad\<rparr>)) \<and>
   (pad \<noteq> pad' \<longrightarrow> request_page tok p pad \<noteq> request_page tok' p' pad') \<and>
   (truthy (accessToken t) \<longrightarrow>
      handleSearch_begin_part e tok t =
        (t\<lparr>loading := True\<rparr>,
         (if e then [PreventDefault] else []) @
           [SearchList \<lparr>part = [''snippet''], pageToken = tok, spread = params t,
              req_publishedAfter = None\<rparr>],
         Awaiting \<lparr>part = [''snippet''], pageToken = tok, spread = params t,
              req_publishedAfter = None\<rparr>))"
  by (simp add: handleSearch_begin_page_def handleSearch_begin_part_def falsy_not_truthy
      request_page_def request_part_def Let_def)

theorem recency_filter_in_request_witness:
  "handleSearch_begin_page 1700000000000 True None
      (authorized (initial_params_page\<lparr>publishedAfter := ''week''\<rparr>)) =
     ((authorized (initial_params_page\<lparr>publishedAfter := ''week''\<rparr>))\<lparr>loading := True\<rparr>,
      [PreventDefault,
       SearchList \<lparr>part = [''snippet''], pageToken = None, spread = initial_params,
         req_publishedAfter = Some ''2023-11-07T22:13:20.000Z''\<rparr>],
      Awaiting \<lparr>part = [''snippet''], pageToken = None, spread = initial_params,
         req_publishedAfter = Some ''2023-11-07T22:13:20.000Z''\<rparr>) \<and>
   handleSearch_begin_part True None (authorized initial_params) =
     ((authorized initial_params)\<lparr>loading := True\<rparr>,
      [PreventDefault,
       SearchList \<lparr>part = [''snippet''], pageToken = None, spread = initial_params,
         req_publishedAfter = None\<rparr>],
      Awaiting \<lparr>part = [''snippet''], pageToken = None, spread = initial_params,
         req_publishedAfter = None\<rparr>)"
  using recency_filter_in_request [where s = "authorized (initial_params_page\<lparr>publishedAfter := ''week''\<rparr>)"
      and now = 1700000000000 and pad = "Some ''2023-11-07T22:13:20.000Z''" and e = True
      and tok = None and t = "authorized initial_params" and pad' = None]
  by (simp add: initial_params_page_def initial_params_def publishedAfterDate_week_example
      SearchParams.truncate_def SearchParams.defs)

text \<open>
  Two calls in page.tsx at the same clock reading, from states that differ in the recency
  filter only (\<^verbatim>\<open>"any"\<close> and \<^verbatim>\<open>"week"\<close>), send different requests.
\<close>

theorem recency_filter_in_request_counterexample:
  "snd (snd (handleSearch_begin_page 1700000000000 True None (authorized initial_params_page))) \<noteq>
   snd (snd (handleSearch_begin_page 1700000000000 True None
     (authorized (initial_params_page\<lparr>publishedAfter := ''week''\<rparr>))))"
  by (simp add: handleSearch_begin_page_def initial_params_page_def
      publishedAfterDate_week_example request_page_def Let_def)

section \<open>The page as a transition system: invariant\<close>

lemma token_callback_fields [simp]:
  "loading (token_callback t s) = loading s"
  "nextPageToken (token_callback t s) = nextPageToken s"
  "prevPageToken (token_callback t s) = prevPageToken s"
  "results (token_callback t s) = results s"
  by (simp_all add: token_callback_def)

lemma app_inv_initial: "app_inv (initial_app p)"
  by (simp add: app_inv_def initial_app_def initial_state_def)

text \<open>
  \<^verbatim>\<open>handleSearch\<close> itself does not read \<open>loading\<close>: called with a token in a state that is
  loading, it issues a request. What keeps a second call away is the \<open>disabled\<close> attribute of
  the controls.
\<close>

lemma handleSearch_ignores_loading:
  "snd (snd (handleSearch_begin_part e tok ((authorized p)\<lparr>loading := True\<rparr>))) =
     Awaiting (request_part tok p)"
  by (simp add: handleSearch_begin_part_def Let_def)

lemma begin_page_cases:
  "handleSearch_begin_page now e tok s = (s', fx, pr) \<Longrightarrow>
     (pr = Returned \<and> (s' = s \<or> s' = s\<lparr>loading := False\<rparr>)) \<or>
     (\<exists>rq. pr = Awaiting rq \<and> s' = s\<lparr>loading := True\<rparr>)"
  by (auto simp add: handleSearch_begin_page_def Let_def split: if_splits sum.splits)

lemma begin_part_cases:
  "handleSearch_begin_part e tok s = (s', fx, pr) \<Longrightarrow>
     (pr = Returned \<and> s' = s) \<or> (\<exists>rq. pr = Awaiting rq \<and> s' = s\<lparr>loading := True\<rparr>)"
  by (auto simp add: handleSearch_begin_part_def Let_def split: if_splits)

lemma app_inv_started_page:
  assumes "app_inv a" and "\<not> loading (view a)"
  shows "app_inv (started a (handleSearch_begin_page now e tok (view a)))"
proof -
  obtain s' fx pr where r: "handleSearch_begin_page now e tok (view a) = (s', fx, pr)"
    by (cases "handleSearch_begin_page now e tok (view a)") auto
  from assms have p: "pending a = []" by (simp add: app_inv_def)
  from begin_page_cases [OF r] assms p show ?thesis
    by (auto simp add: r started_def app_inv_def)
qed

lemma app_inv_started_part:
  assumes "app_inv a" and "\<not> loading (view a)"
  shows "app_inv (started a (handleSearch_begin_part e tok (view a)))"
proof -
  obtain s' fx pr where r: "handleSearch_begin_part e tok (view a) = (s', fx, pr)"
    by (cases "handleSearch_begin_part e tok (view a)") auto
  from assms have p: "pending a = []" by (simp add: app_inv_def)
  from begin_part_cases [OF r] assms p show ?thesis
    by (auto simp add: r started_def app_inv_def)
qed

lemma length_le_1_tl: "length xs \<le> 1 \<Longrightarrow> tl xs = []"
  by (cases xs) auto

lemma app_inv_settled_page:
  assumes "app_inv a" and "pending a \<noteq> []"
  shows "app_inv (settled a (handleSearch_settle_page oc (view a)))"
  using assms
  by (cases oc)
    (simp_all add: settled_def handleSearch_settle_page_def app_inv_def length_le_1_tl
      or_null_never_empty)

lemma app_inv_settled_part:
  assumes "app_inv a" and "pending a \<noteq> []"
  shows "app_inv (settled a (handleSearch_settle_part oc (view a)))"
  using assms
  by (cases oc)
    (simp_all add: settled_def handleSearch_settle_part_def app_inv_def length_le_1_tl
      or_null_never_empty)

lemma app_inv_step_page:
  "app_inv a \<Longrightarrow> ui_step_page ev a = Some a' \<Longrightarrow> app_inv a'"
proof (cases ev)
  case (Submit now)
  assume "app_inv a" "ui_step_page ev a = Some a'"
  with Submit show ?thesis
    by (auto simp add: submit_disabled_def app_inv_started_page split: if_splits)
next
  case (Settle oc)
  assume "app_inv a" "ui_step_page ev a = Some a'"
  with Settle show ?thesis
    by (auto simp add: app_inv_settled_page split: if_splits)
next
  case (TokenResponse t)
  assume "app_inv a" "ui_step_page ev a = Some a'"
  with TokenResponse show ?thesis
    by (auto simp add: app_inv_def)
next
  case (SetParams p)
  assume "app_inv a" "ui_step_page ev a = Some a'"
  with SetParams show ?thesis
    by (auto simp add: app_inv_def)
qed auto

lemma app_inv_step_part:
  "app_inv a \<Longrightarrow> ui_step_part ev a = Some a' \<Longrightarrow> app_inv a'"
proof (cases ev)
  case (Submit now)
  assume "app_inv a" "ui_step_part ev a = Some a'"
  with Submit show ?thesis
    by (auto simp add: submit_disabled_def app_inv_started_part split: if_splits)
next
  case PreviousPage
  assume "app_inv a" "ui_step_part ev a = Some a'"
  with PreviousPage show ?thesis
    by (auto simp add: prev_disabled_def app_inv_started_part split: if_splits)
next
  case NextPage
  assume "app_inv a" "ui_step_part ev a = Some a'"
  with NextPage show ?thesis
    by (auto simp add: next_disabled_def app_inv_started_part split: if_splits)
next
  case (Settle oc)
  assume "app_inv a" "ui_step_part ev a = Some a'"
  with Settle show ?thesis
    by (auto simp add: app_inv_settled_part split: if_splits)
next
  case (TokenResponse t)
  assume "app_inv a" "ui_step_part ev a = Some a'"
  with TokenResponse show ?thesis
    by (auto simp add: app_inv_def)
next
  case (SetParams p)
  assume "app_inv a" "ui_step_part ev a = Some a'"
  with SetParams show ?thesis
    by (auto simp add: app_inv_def)
qed

lemma app_inv_run_page:
  "app_inv a \<Longrightarrow> run_page evs a = Some a' \<Longrightarrow> app_inv a'"
proof (induction evs arbitrary: a)
  case Nil
  then show ?case by simp
next
  case (Cons ev evs)
  then show ?case
    by (auto split: option.splits dest: app_inv_step_page)
qed

lemma app_inv_run_part:
  "app_inv a \<Longrightarrow> run_part evs a = Some a' \<Longrightarrow> app_inv a'"
proof (induction evs arbitrary: a)
  case Nil
  then show ?case by simp
next
  case (Cons ev evs)
  then show ?case
    by (auto split: option.splits dest: app_inv_step_part)
qed

text \<open>Two runs used below: a first search in each file, and a page turn in part_000.\<close>

lemma run_page_example:
  "run_page [TokenResponse (Some ''ya29.token''),
       SetParams (initial_params_page\<lparr>publishedAfter := ''week''\<rparr>), Submit 1700000000000]
     (initial_app initial_params_page) =
   Some \<lparr>view = (authorized (initial_params_page\<lparr>publishedAfter := ''week''\<rparr>))\<lparr>loading := True\<rparr>,
     pending = [request_page None (initial_params_page\<lparr>publishedAfter := ''week''\<rparr>)
       (Some ''2023-11-07T22:13:20.000Z'')],
     effects = [PreventDefault,
       SearchList (request_page None (initial_params_page\<lparr>publishedAfter := ''week''\<rparr>)
         (Some ''2023-11-07T22:13:20.000Z''))]\<rparr>"
  by (simp add: initial_app_def initial_state_def authorized_def token_callback_def
      submit_disabled_def started_def handleSearch_begin_page_def initial_params_page_def
      publishedAfterDate_week_example Let_def)

lemma run_part_example:
  "run_part [TokenResponse (Some ''ya29.token''), Submit 1700000000000,
       Settle (Fulfilled \<lparr>items = [sample_item ''a'', sample_item ''b''],
         result_nextPageToken = Some ''CAUQAA'', result_prevPageToken = Some ''CAUQAQ''\<rparr>),
       NextPage]
     (initial_app initial_params) =
   Some \<lparr>view = (authorized initial_params)\<lparr>results := [sample_item ''b'', sample_item ''a''],
       nextPageToken := Some ''CAUQAA'', prevPageToken := Some ''CAUQAQ'', loading := True\<rparr>,
     pending = [request_part (Some ''CAUQAA'') initial_params],
     effects = [PreventDefault, SearchList (request_part None initial_params), ScrollToTop,
       SearchList (request_part (Some ''CAUQAA'') initial_params)]\<rparr>"
  by (simp add: initial_app_def initial_state_def authorized_def token_callback_def
      submit_disabled_def started_def settled_def handleSearch_begin_part_def
      handleSearch_settle_part_def pagination_rendered_def next_disabled_def Let_def)

text \<open>
  C4. In every state that the page reaches from its initial state, in either file, at
  most one search call is pending, and \<open>loading\<close> is set exactly while one is pending; an
  event that happens while a call is pending does not issue another one. The busy flag
  guards every caller of \<^verbatim>\<open>handleSearch\<close>: the submit button and the two page buttons are
  disabled while it is set.
\<close>

theorem one_search_in_flight:
  "(run_page evs (initial_app p) = Some a \<longrightarrow>
      length (pending a) \<le> 1 \<and> loading (view a) = (pending a \<noteq> []) \<and>
      (pending a \<noteq> [] \<and> ui_step_page ev a = Some b \<longrightarrow> length (pending b) \<le> length (pending a))) \<and>
   (run_part evs' (initial_app p') = Some a' \<longrightarrow>
      length (pending a') \<le> 1 \<and> loading (view a') = (pending a' \<noteq> []) \<and>
      (pending a' \<noteq> [] \<and> ui_step_part ev' a' = Some b' \<longrightarrow>
         length (pending b') \<le> length (pending a')))"
proof -
  have page: "length (pending a) \<le> 1 \<and> loading (view a) = (pending a \<noteq> []) \<and>
      (pending a \<noteq> [] \<and> ui_step_page ev a = Some b \<longrightarrow> length (pending b) \<le> length (pending a))"
    if r: "run_page evs (initial_app p) = Some a"
  proof -
    have inv: "app_inv a"
      by (rule app_inv_run_page [OF app_inv_initial r])
    have "length (pending b) \<le> length (pending a)"
      if "pending a \<noteq> []" and "ui_step_page ev a = Some b"
    proof -
      from inv that(2) have "app_inv b" by (rule app_inv_step_page)
      then have "length (pending b) \<le> 1" by (simp add: app_inv_def)
      moreover from that(1) have "1 \<le> length (pending a)" by (cases "pending a") simp_all
      ultimately show ?thesis by simp
    qed
    with inv show ?thesis by (simp add: app_inv_def)
  qed
  have part: "length (pending a') \<le> 1 \<and> loading (view a') = (pending a' \<noteq> []) \<and>
      (pending a' \<noteq> [] \<and> ui_step_part ev' a' = Some b' \<longrightarrow>
         length (pending b') \<le> length (pending a'))"
    if r: "run_part evs' (initial_app p') = Some a'"
  proof -
    have inv: "app_inv a'"
      by (rule app_inv_run_part [OF app_inv_initial r])
    have "length (pending b') \<le> length (pending a')"
      if "pending a' \<noteq> []" and "ui_step_part ev' a' = Some b'"
    proof -
      from inv that(2) have "app_inv b'" by (rule app_inv_step_part)
      then have "length (pending b') \<le> 1" by (simp add: app_inv_def)
      moreover from that(1) have "1 \<le> length (pending a')" by (cases "pending a'") simp_all
      ultimately show ?thesis by simp
    qed
    with inv show ?thesis by (simp add: app_inv_def)
  qed
  from page part show ?thesis by blast
qed

theorem one_search_in_flight_witness:
  "length (pending (the (run_page [TokenResponse (Some ''ya29.token''),
       SetParams (initial_params_page\<lparr>publishedAfter := ''week''\<rparr>), Submit 1700000000000]
     (initial_app initial_params_page)))) = 1 \<and>
   loading (view (the (run_page [TokenResponse (Some ''ya29.token''),
       SetParams (initial_params_page\<lparr>publishedAfter := ''week''\<rparr>), Submit 1700000000000]
     (initial_app initial_params_page)))) \<and>
   length (pending (the (run_part [TokenResponse (Some ''ya29.token''), Submit 1700000000000,
       Settle (Fulfilled \<lparr>items = [sample_item ''a'', sample_item ''b''],
         result_nextPageToken = Some ''CAUQAA'', result_prevPageToken = Some ''CAUQAQ''\<rparr>),
       NextPage]
     (initial_app initial_params)))) = 1 \<and>
   loading (view (the (run_part [TokenResponse (Some ''ya29.token''), Submit 1700000000000,
       Settle (Fulfilled \<lparr>items = [sample_item ''a'', sample_item ''b''],
         result_nextPageToken = Some ''CAUQAA'', result_prevPageToken = Some ''CAUQAQ''\<rparr>),
       NextPage]
     (initial_app initial_params)))) \<and>
   ui_step_part (Submit 1700000003000)
     (the (run_part [TokenResponse (Some ''ya29.token''), Submit 1700000000000,
       Settle (Fulfilled \<lparr>items = [sample_item ''a'', sample_item ''b''],
         result_nextPageToken = Some ''CAUQAA'', result_prevPageToken = Some ''CAUQAQ''\<rparr>),
       NextPage]
     (initial_app initial_params))) = None"
  using one_search_in_flight [
      where evs = "[TokenResponse (Some ''ya29.token''),
        SetParams (initial_params_page\<lparr>publishedAfter := ''week''\<rparr>), Submit 1700000000000]"
      and p = initial_params_page
      and evs' = "[TokenResponse (Some ''ya29.token''), Submit 1700000000000,
        Settle (Fulfilled \<lparr>items = [sample_item ''a'', sample_item ''b''],
          result_nextPageToken = Some ''CAUQAA'', result_prevPageToken = Some ''CAUQAQ''\<rparr>),
        NextPage]"
      and p' = initial_params]
  unfolding run_page_example run_part_example option.sel
  by (simp add: submit_disabled_def)

text \<open>
  C8, as the code has it. In every state that part_000 reaches with a non-empty result
  list: while \<open>loading\<close> is set both page buttons are disabled, whatever the cursors; while
  it is not set, the Previous Page button is disabled exactly when the backward cursor is
  absent and the Next Page button exactly when the forward cursor is absent.
\<close>

theorem pagination_buttons:
  "run_part evs (initial_app p) = Some a \<and> pagination_rendered (view a) \<longrightarrow>
     (if loading (view a) then prev_disabled (view a) \<and> next_disabled (view a)
      else prev_disabled (view a) = (prevPageToken (view a) = None) \<and>
           next_disabled (view a) = (nextPageToken (view a) = None))"
  using app_inv_run_part [OF app_inv_initial, of evs p a]
  by (cases "prevPageToken (view a)"; cases "nextPageToken (view a)")
     (auto simp add: app_inv_def prev_disabled_def next_disabled_def)

theorem pagination_buttons_witness:
  "pagination_rendered (view (the (run_part [TokenResponse (Some ''ya29.token''),
       Submit 1700000000000,
       Settle (Fulfilled \<lparr>items = [sample_item ''a'', sample_item ''b''],
         result_nextPageToken = Some ''CAUQAA'', result_prevPageToken = None\<rparr>)]
     (initial_app initial_params)))) \<and>
   prev_disabled (view (the (run_part [TokenResponse (Some ''ya29.token''),
       Submit 1700000000000,
       Settle (Fulfilled \<lparr>items = [sample_item ''a'', sample_item ''b''],
         result_nextPageToken = Some ''CAUQAA'', result_prevPageToken = None\<rparr>)]
     (initial_app initial_params)))) \<and>
   \<not> next_disabled (view (the (run_part [TokenResponse (Some ''ya29.token''),
       Submit 1700000000000,
       Settle (Fulfilled \<lparr>items = [sample_item ''a'', sample_item ''b''],
         result_nextPageToken = Some ''CAUQAA'', result_prevPageToken = None\<rparr>)]
     (initial_app initial_params))))"
proof -
  let ?evs = "[TokenResponse (Some ''ya29.token''), Submit 1700000000000,
       Settle (Fulfilled \<lparr>items = [sample_item ''a'', sample_item ''b''],
         result_nextPageToken = Some ''CAUQAA'', result_prevPageToken = None\<rparr>)]"
  let ?a = "\<lparr>view = (authorized initial_params)\<lparr>results := [sample_item ''b'', sample_item ''a''],
       nextPageToken := Some ''CAUQAA'', prevPageToken := None, loading := False\<rparr>,
     pending = [],
     effects = [PreventDefault, SearchList (request_part None initial_params), ScrollToTop]\<rparr>"
  have r: "run_part ?evs (initial_app initial_params) = Some ?a"
    by (simp add: initial_app_def initial_state_def authorized_def token_callback_def
        submit_disabled_def started_def settled_def handleSearch_begin_part_def
        handleSearch_settle_part_def Let_def)
  have rendered: "pagination_rendered (view ?a)"
    by (simp add: pagination_rendered_def)
  from pagination_buttons [of ?evs initial_params ?a] r rendered
  show ?thesis by simp
qed

text \<open>
  After a page turn part_000 is in a state with two results, both cursors present and
  \<open>loading\<close> set: both page buttons are disabled although their cursors are present.
\<close>

theorem pagination_buttons_counterexample:
  "pagination_rendered (view (the (run_part [TokenResponse (Some ''ya29.token''),
       Submit 1700000000000,
       Settle (Fulfilled \<lparr>items = [sample_item ''a'', sample_item ''b''],
         result_nextPageToken = Some ''CAUQAA'', result_prevPageToken = Some ''CAUQAQ''\<rparr>),
       NextPage]
     (initial_app initial_params)))) \<and>
   prevPageToken (view (the (run_part [TokenResponse (Some ''ya29.token''),
       Submit 1700000000000,
       Settle (Fulfilled \<lparr>items = [sample_item ''a'', sample_item ''b''],
         result_nextPageToken = Some ''CAUQAA'', result_prevPageToken = Some ''CAUQAQ''\<rparr>),
       NextPage]
     (initial_app initial_params)))) = Some ''CAUQAQ'' \<and>
   nextPageToken (view (the (run_part [TokenResponse (Some ''ya29.token''),
       Submit 1700000000000,
       Settle (Fulfilled \<lparr>items = [sample_item ''a'', sample_item ''b''],
         result_nextPageToken = Some ''CAUQAA'', result_prevPageToken = Some ''CAUQAQ''\<rparr>),
       NextPage]
     (initial_app initial_params)))) = Some ''CAUQAA'' \<and>
   prev_disabled (view (the (run_part [TokenResponse (Some ''ya29.token''),
       Submit 1700000000000,
       Settle (Fulfilled \<lparr>items = [sample_item ''a'', sample_item ''b''],
         result_nextPageToken = Some ''CAUQAA'', result_prevPageToken = Some ''CAUQAQ''\<rparr>),
       NextPage]
     (initial_app initial_params)))) \<and>
   next_disabled (view (the (run_part [TokenResponse (Some ''ya29.token''),
       Submit 1700000000000,
       Settle (Fulfilled \<lparr>items = [sample_item ''a'', sample_item ''b''],
         result_nextPageToken = Some ''CAUQAA'', result_prevPageToken = Some ''CAUQAQ''\<rparr>),
       NextPage]
     (initial_app initial_params))))"
  unfolding run_part_example option.sel
  by (simp add: pagination_rendered_def prev_disabled_def next_disabled_def)

section \<open>The readiness poll: invariant\<close>

lemma poll_inv_mounted: "poll_inv mounted"
  by (simp add: poll_inv_def mounted_def)

lemma poll_inv_callback: "poll_inv p \<Longrightarrow> poll_inv (interval_callback g p)"
  by (auto simp add: poll_inv_def interval_callback_def Let_def split: if_splits)

lemma poll_inv_step: "poll_inv p \<Longrightarrow> poll_inv (poll_step ev p)"
  by (cases ev) (auto simp add: poll_inv_callback, auto simp add: poll_inv_def split: if_splits)

lemma poll_inv_run: "poll_inv p \<Longrightarrow> poll_inv (poll_run evs p)"
  by (induction evs arbitrary: p) (simp_all add: poll_inv_step)

lemma cleared_step:
  "\<not> interval_set p \<Longrightarrow>
     \<not> interval_set (poll_step ev p) \<and>
     count_list (trace (poll_step ev p)) CallbackRun = count_list (trace p) CallbackRun"
  by (cases ev) simp_all

lemma cleared_run:
  "\<not> interval_set p \<Longrightarrow>
     \<not> interval_set (poll_run evs p) \<and>
     count_list (trace (poll_run evs p)) CallbackRun = count_list (trace p) CallbackRun"
proof (induction evs arbitrary: p)
  case Nil
  then show ?case by simp
next
  case (Cons ev evs)
  from cleared_step [OF Cons.prems, of ev] Cons.IH [of "poll_step ev p"]
  show ?case by simp
qed

lemma detect_both:
  "interval_set p \<Longrightarrow> gapi_defined g \<Longrightarrow> google_defined g \<Longrightarrow> google_accounts g \<Longrightarrow>
     gapiInitStarted (poll_step (Elapse g) p) \<and> gisInitStarted (poll_step (Elapse g) p) \<and>
     \<not> interval_set (poll_step (Elapse g) p)"
  by (simp add: interval_callback_def Let_def)

lemma poll_run_append: "poll_run (evs @ evs') p = poll_run evs' (poll_run evs p)"
  by (induction evs arbitrary: p) simp_all

text \<open>
  C9. Along every sequence of timer periods and teardowns after the effect has run:
  \<^verbatim>\<open>gapi.load\<close> is called at most once and \<^verbatim>\<open>initTokenClient\<close> at most once; once both
  flags are set the interval is cleared, which happens in the very callback that finds
  both globals; the teardown clears the interval; and once the interval is cleared the
  callback never runs again.
\<close>

theorem readiness_poll:
  "count_list (trace (poll_run evs mounted)) GapiLoad \<le> 1 \<and>
   count_list (trace (poll_run evs mounted)) InitTokenClient \<le> 1 \<and>
   (gapiInitStarted (poll_run evs mounted) \<and> gisInitStarted (poll_run evs mounted) \<longrightarrow>
      \<not> interval_set (poll_run evs mounted)) \<and>
   (interval_set (poll_run evs mounted) \<and> gapi_defined g \<and> google_defined g \<and>
      google_accounts g \<longrightarrow>
      \<not> interval_set (poll_run (evs @ [Elapse g]) mounted)) \<and>
   \<not> interval_set (poll_run (evs @ [Teardown]) mounted) \<and>
   (\<not> interval_set (poll_run evs mounted) \<longrightarrow>
      count_list (trace (poll_run (evs @ later) mounted)) CallbackRun =
      count_list (trace (poll_run evs mounted)) CallbackRun)"
proof -
  let ?p = "poll_run evs mounted"
  have inv: "poll_inv ?p"
    by (rule poll_inv_run [OF poll_inv_mounted])
  have a: "count_list (trace ?p) GapiLoad \<le> 1" "count_list (trace ?p) InitTokenClient \<le> 1"
    using inv by (simp_all add: poll_inv_def)
  have b: "gapiInitStarted ?p \<and> gisInitStarted ?p \<longrightarrow> \<not> interval_set ?p"
    using inv by (simp add: poll_inv_def)
  have c: "interval_set ?p \<and> gapi_defined g \<and> google_defined g \<and> google_accounts g \<longrightarrow>
      \<not> interval_set (poll_run (evs @ [Elapse g]) mounted)"
    using detect_both [of ?p g] by (simp add: poll_run_append)
  have d: "\<not> interval_set (poll_run (evs @ [Teardown]) mounted)"
    by (simp add: poll_run_append)
  have e: "\<not> interval_set ?p \<longrightarrow>
      count_list (trace (poll_run (evs @ later) mounted)) CallbackRun =
      count_list (trace ?p) CallbackRun"
    using cleared_run [of ?p later] by (simp add: poll_run_append)
  from a b c d e show ?thesis by blast
qed

text \<open>
  A run in which \<^verbatim>\<open>gapi\<close> appears before the second period and \<^verbatim>\<open>google.accounts\<close> before
  the third: three callbacks run, the fourth and fifth periods call nothing.
\<close>

lemma poll_run_example:
  "poll_run [Elapse \<lparr>gapi_defined = False, google_defined = False, google_accounts = False\<rparr>,
       Elapse \<lparr>gapi_defined = True, google_defined = False, google_accounts = False\<rparr>,
       Elapse \<lparr>gapi_defined = True, google_defined = True, google_accounts = True\<rparr>]
     mounted =
   \<lparr>gapiInitStarted = True, gisInitStarted = True, interval_set = False,
     trace = [CallbackRun, CallbackRun, GapiLoad, CallbackRun, InitTokenClient, SetTokenClient,
       ClearInterval]\<rparr>"
  by (simp add: mounted_def interval_callback_def Let_def)

theorem readiness_poll_witness:
  "count_list (trace (poll_run
      ([Elapse \<lparr>gapi_defined = False, google_defined = False, google_accounts = False\<rparr>,
        Elapse \<lparr>gapi_defined = True, google_defined = False, google_accounts = False\<rparr>,
        Elapse \<lparr>gapi_defined = True, google_defined = True, google_accounts = True\<rparr>] @
       [Elapse \<lparr>gapi_defined = True, google_defined = True, google_accounts = True\<rparr>,
        Elapse \<lparr>gapi_defined = True, google_defined = True, google_accounts = True\<rparr>])
      mounted)) CallbackRun = 3 \<and>
   \<not> interval_set (poll_run
      [Elapse \<lparr>gapi_defined = False, google_defined = False, google_accounts = False\<rparr>,
       Elapse \<lparr>gapi_defined = True, google_defined = False, google_accounts = False\<rparr>,
       Elapse \<lparr>gapi_defined = True, google_defined = True, google_accounts = True\<rparr>]
      mounted) \<and>
   count_list (trace (poll_run
      [Elapse \<lparr>gapi_defined = False, google_defined = False, google_accounts = False\<rparr>,
       Elapse \<lparr>gapi_defined = True, google_defined = False, google_accounts = False\<rparr>,
       Elapse \<lparr>gapi_defined = True, google_defined = True, google_accounts = True\<rparr>]
      mounted)) GapiLoad = 1"
  using readiness_poll [where
      evs = "[Elapse \<lparr>gapi_defined = False, google_defined = False, google_accounts = False\<rparr>,
        Elapse \<lparr>gapi_defined = True, google_defined = False, google_accounts = False\<rparr>,
        Elapse \<lparr>gapi_defined = True, google_defined = True, google_accounts = True\<rparr>]"
      and later = "[Elapse \<lparr>gapi_defined = True, google_defined = True, google_accounts = True\<rparr>,
        Elapse \<lparr>gapi_defined = True, google_defined = True, google_accounts = True\<rparr>]"]
  unfolding append.simps poll_run_example
  by (simp add: interval_callback_def)

end
